theory Spec2Isabelle
  imports Complex_Main
begin

section \<open>The world touchp runs in\<close>

text \<open>
  touchp.py is a Python script: it resolves a time source (\<open>-r\<close>, \<open>-d\<close>, \<open>-t\<close> or none)
  into a pair of optional timestamps, applies the pair to every path given on the command
  line (\<open>update_timestamps\<close>) and hands the paths that were touched to a Qt dialog.

  The model is a shallow embedding with explicit state passing. A timestamp is a Python
  float (seconds since the epoch); it is modelled as a \<open>real\<close>, and the file system stores
  the value handed to \<open>os.utime\<close> as it is (no rounding to the resolution of the file
  system). A string is a list of characters, one \<open>char\<close> per code point below 256.
\<close>

type_synonym path = string

record file_meta =
  st_atime :: real
  st_mtime :: real
  content :: string

text \<open>The exceptions the script meets; each carries the text of \<open>str(e)\<close>.\<close>

datatype pyerr =
    ValueError string
  | IndexError string
  | OverflowError string
  | OSError string

fun str_e :: "pyerr \<Rightarrow> string" where
  "str_e (ValueError s) = s"
| "str_e (IndexError s) = s"
| "str_e (OverflowError s) = s"
| "str_e (OSError s) = s"

text \<open>A \<open>datetime.datetime\<close> object, as far as the script reads or builds it.\<close>

record datetime =
  dt_year :: int
  dt_month :: int
  dt_day :: int
  dt_hour :: int
  dt_minute :: int
  dt_second :: int

text \<open>
  Everything the script takes from outside and does not change:
  \<^item> \<open>now_dt k\<close> and \<open>now_ts k\<close>: the calendar fields and the timestamp of the \<open>k\<close>-th reading
    of the clock (\<open>datetime.datetime.now()\<close> and its \<open>.timestamp()\<close>; the operating system
    reads the same clock when it creates a file or is asked to set the current time);
  \<^item> \<open>open_err p\<close>: \<open>Some e\<close> when \<open>open(p, 'a')\<close> raises \<open>IOError\<close> with text \<open>e\<close>;
  \<^item> \<open>utime_err p\<close>: \<open>Some e\<close> when \<open>os.utime(p, ...)\<close> raises \<open>OSError\<close> with text \<open>e\<close>;
  \<^item> \<open>parse_date s\<close>: the value of \<open>parse_date(s).timestamp()\<close> (python-dateutil), or the
    exception it raises;
  \<^item> \<open>timestamp d\<close>: the value of \<open>d.timestamp()\<close> for a naive \<open>datetime\<close> (the local time
    zone of the host), or the exception it raises;
  \<^item> \<open>app_exec fs\<close>: the value \<open>app.exec_()\<close> returns after the dialog for the files \<open>fs\<close>.
\<close>

record env =
  now_dt :: "nat \<Rightarrow> datetime"
  now_ts :: "nat \<Rightarrow> real"
  open_err :: "path \<Rightarrow> string option"
  utime_err :: "path \<Rightarrow> string option"
  parse_date :: "string \<Rightarrow> pyerr + real"
  timestamp :: "datetime \<Rightarrow> pyerr + real"
  app_exec :: "path list \<Rightarrow> int"

text \<open>
  What the script changes: the files (a path that maps to \<open>None\<close> does not exist), the
  number of clock readings made so far, and the lines printed to the two streams.
\<close>

record world =
  files :: "path \<Rightarrow> file_meta option"
  tick :: nat
  stdout :: "string list"
  stderr :: "string list"

definition read_clock :: "env \<Rightarrow> world \<Rightarrow> real \<times> world" where
  "read_clock E w = (now_ts E (tick w), w\<lparr>tick := Suc (tick w)\<rparr>)"

definition print_out :: "string \<Rightarrow> world \<Rightarrow> world" where
  "print_out s w = w\<lparr>stdout := stdout w @ [s]\<rparr>"

definition print_err :: "string \<Rightarrow> world \<Rightarrow> world" where
  "print_err s w = w\<lparr>stderr := stderr w @ [s]\<rparr>"

definition quote :: "string \<Rightarrow> string" where
  "quote s = CHR 0x27 # s @ [CHR 0x27]"

section \<open>update_timestamps\<close>

text \<open>\<open>open(filepath, 'a')\<close> on a path that does not exist: an empty file, stamped by the
  operating system with the current time.\<close>

definition create_file :: "env \<Rightarrow> path \<Rightarrow> world \<Rightarrow> world" where
  "create_file E filepath w =
     (let (n, w1) = read_clock E w
      in w1\<lparr>files := (files w1)(filepath \<mapsto> \<lparr>st_atime = n, st_mtime = n, content = []\<rparr>)\<rparr>)"

text \<open>Lines 57 to 69: the pair handed to \<open>os.utime\<close>, \<open>None\<close> for "the current time".\<close>

definition final_times :: "real option \<Rightarrow> real option \<Rightarrow> file_meta \<Rightarrow> (real \<times> real) option" where
  "final_times mtime atime stat =
     (if mtime = None \<and> atime = None then None
      else
        let current_atime = st_atime stat;
            current_mtime = st_mtime stat;
            final_atime = (case atime of Some a \<Rightarrow> a
                           | None \<Rightarrow> (case mtime of Some m \<Rightarrow> m | None \<Rightarrow> current_atime));
            final_mtime = (case mtime of Some m \<Rightarrow> m
                           | None \<Rightarrow> (case atime of Some a \<Rightarrow> a | None \<Rightarrow> current_mtime))
        in Some (final_atime, final_mtime))"

text \<open>\<open>os.utime(filepath, times)\<close> on an existing file.\<close>

definition os_utime :: "env \<Rightarrow> path \<Rightarrow> (real \<times> real) option \<Rightarrow> file_meta \<Rightarrow> world \<Rightarrow> world" where
  "os_utime E filepath tms stat w =
     (case tms of
        None \<Rightarrow>
          (let (n, w1) = read_clock E w
           in w1\<lparr>files := (files w1)(filepath \<mapsto> stat\<lparr>st_atime := n, st_mtime := n\<rparr>)\<rparr>)
      | Some (ta, tm) \<Rightarrow>
          w\<lparr>files := (files w)(filepath \<mapsto> stat\<lparr>st_atime := ta, st_mtime := tm\<rparr>)\<rparr>)"

text \<open>Lines 56 to 77, for a path that exists with metadata \<open>stat\<close>.\<close>

definition set_times :: "env \<Rightarrow> path \<Rightarrow> real option \<Rightarrow> real option \<Rightarrow> file_meta \<Rightarrow> world \<Rightarrow> bool \<times> world" where
  "set_times E filepath mtime atime stat w =
     (let tms = final_times mtime atime stat
      in case utime_err E filepath of
           Some e \<Rightarrow>
             (False, print_err (''touchp: setting times for '' @ quote filepath @ '': '' @ e) w)
         | None \<Rightarrow> (True, os_utime E filepath tms stat w))"

text \<open>
  The function itself. \<open>os.path.exists\<close> is the lookup in \<open>files\<close>. After a successful
  \<open>open\<close> the path exists, so the last \<open>None\<close> branch below is never taken; it is there
  because the lookup is total.
\<close>

definition update_timestamps :: "env \<Rightarrow> path \<Rightarrow> real option \<Rightarrow> real option \<Rightarrow> bool \<Rightarrow> world \<Rightarrow> bool \<times> world" where
  "update_timestamps E filepath mtime atime no_create w =
     (case files w filepath of
        None \<Rightarrow>
          if no_create then
            (False, print_out (''touchp: cannot touch '' @ quote filepath
                       @ '': No such file or directory (and -c flag is set)'') w)
          else
            (case open_err E filepath of
               Some e \<Rightarrow>
                 (False, print_err (''touchp: cannot create '' @ quote filepath @ '': '' @ e) w)
             | None \<Rightarrow>
                 (let w1 = print_out (''touchp: created '' @ quote filepath) (create_file E filepath w)
                  in case files w1 filepath of
                       Some stat \<Rightarrow> set_times E filepath mtime atime stat w1
                     | None \<Rightarrow> (False, w1)))
      | Some stat \<Rightarrow> set_times E filepath mtime atime stat w)"

section \<open>The Python builtins the script calls\<close>

text \<open>
  \<open>int(s)\<close> on a string, base 10: surrounding white space is dropped, one sign is allowed,
  then decimal digits, where single underscores may stand between two digits. The text of
  the \<open>ValueError\<close> quotes the argument; Python prints its \<open>repr\<close>, which is the quoted
  string when it has no quote or escape in it.
\<close>

definition is_digit :: "char \<Rightarrow> bool" where
  "is_digit c = (c \<in> set ''0123456789'')"

definition digit_val :: "char \<Rightarrow> nat" where
  "digit_val c = of_char c - 48"

definition is_space :: "char \<Rightarrow> bool" where
  "is_space c = ((of_char c :: nat) \<in> set [9, 10, 11, 12, 13, 28, 29, 30, 31, 32, 133, 160])"

definition strip :: "string \<Rightarrow> string" where
  "strip s = dropWhile is_space (rev (dropWhile is_space (rev s)))"

fun int_digits :: "nat \<Rightarrow> string \<Rightarrow> nat option" where
  "int_digits acc [] = Some acc"
| "int_digits acc (c # cs) =
     (if is_digit c then int_digits (10 * acc + digit_val c) cs
      else if c = CHR ''_'' then
        (case cs of
           [] \<Rightarrow> None
         | d # ds \<Rightarrow> if is_digit d then int_digits (10 * acc + digit_val d) ds else None)
      else None)"

definition invalid_literal :: "string \<Rightarrow> pyerr" where
  "invalid_literal s = ValueError (''invalid literal for int() with base 10: '' @ quote s)"

definition py_int :: "string \<Rightarrow> pyerr + int" where
  "py_int s =
     (let body = strip s;
          neg = (case body of c # r \<Rightarrow> c = CHR ''-'' | [] \<Rightarrow> False);
          ds = (case body of c # r \<Rightarrow> if c = CHR ''-'' \<or> c = CHR ''+'' then r else body
                | [] \<Rightarrow> [])
      in case ds of
           [] \<Rightarrow> Inl (invalid_literal s)
         | c # cs \<Rightarrow>
             if is_digit c then
               (case int_digits (digit_val c) cs of
                  None \<Rightarrow> Inl (invalid_literal s)
                | Some n \<Rightarrow> Inr (if neg then - int n else int n))
             else Inl (invalid_literal s))"

text \<open>\<open>str(n)\<close> on an integer.\<close>

definition digit_char :: "nat \<Rightarrow> char" where
  "digit_char d = char_of (48 + d)"

fun str_nat :: "nat \<Rightarrow> string" where
  "str_nat n = (if n < 10 then [digit_char n] else str_nat (n div 10) @ [digit_char (n mod 10)])"

declare str_nat.simps [simp del]

definition py_str :: "int \<Rightarrow> string" where
  "py_str i = (if i < 0 then CHR ''-'' # str_nat (nat (- i)) else str_nat (nat i))"

text \<open>\<open>s.split(sep)\<close> for a separator of one character.\<close>

fun split_on :: "char \<Rightarrow> string \<Rightarrow> string list" where
  "split_on sep [] = [[]]"
| "split_on sep (x # xs) =
     (if x = sep then [] # split_on sep xs
      else (case split_on sep xs of
              p # ps \<Rightarrow> (x # p) # ps
            | [] \<Rightarrow> [[x]]))"

text \<open>The slice \<open>s[i:j]\<close> for \<open>0 \<le> i \<le> j\<close>; a slice never raises.\<close>

definition slice :: "string \<Rightarrow> nat \<Rightarrow> nat \<Rightarrow> string" where
  "slice s i j = take (j - i) (drop i s)"

text \<open>
  \<open>datetime.datetime(year, month, day, hour, minute, second)\<close>: the constructor checks the
  fields in this order and raises \<open>ValueError\<close> at the first one out of range.
\<close>

definition is_leap :: "int \<Rightarrow> bool" where
  "is_leap y = (if y mod 400 = 0 then True else if y mod 100 = 0 then False else y mod 4 = 0)"

definition days_in_month :: "int \<Rightarrow> int \<Rightarrow> int" where
  "days_in_month y mo =
     (if mo = 2 then (if is_leap y then 29 else 28)
      else if mo = 4 \<or> mo = 6 \<or> mo = 9 \<or> mo = 11 then 30
      else 31)"

definition datetime_new :: "int \<Rightarrow> int \<Rightarrow> int \<Rightarrow> int \<Rightarrow> int \<Rightarrow> int \<Rightarrow> pyerr + datetime" where
  "datetime_new y mo d h mi s =
     (if y < 1 \<or> 9999 < y then Inl (ValueError (''year '' @ py_str y @ '' is out of range''))
      else if mo < 1 \<or> 12 < mo then Inl (ValueError ''month must be in 1..12'')
      else if d < 1 \<or> days_in_month y mo < d then Inl (ValueError ''day is out of range for month'')
      else if h < 0 \<or> 23 < h then Inl (ValueError ''hour must be in 0..23'')
      else if mi < 0 \<or> 59 < mi then Inl (ValueError ''minute must be in 0..59'')
      else if s < 0 \<or> 59 < s then Inl (ValueError ''second must be in 0..59'')
      else Inr \<lparr>dt_year = y, dt_month = mo, dt_day = d, dt_hour = h, dt_minute = mi, dt_second = s\<rparr>)"

text \<open>Sequencing of steps that may raise: the first exception ends the block.\<close>

definition bind_err :: "pyerr + 'a \<Rightarrow> ('a \<Rightarrow> pyerr + 'b) \<Rightarrow> pyerr + 'b" where
  "bind_err x f = (case x of Inl e \<Rightarrow> Inl e | Inr v \<Rightarrow> f v)"

section \<open>main\<close>

text \<open>The parsed command line (\<open>args\<close> of the script); an option not given is \<open>None\<close>.\<close>

record args =
  arg_file :: "path list"
  arg_a :: bool
  arg_m :: bool
  arg_no_create :: bool
  arg_date :: "string option"
  arg_reference :: "string option"
  arg_t :: "string option"

text \<open>
  \<open>if args.reference:\<close> and its two siblings test the truth value of the option: \<open>None\<close>
  and the empty string are both false. \<open>given x\<close> is the string when the test passes.
\<close>

definition given :: "string option \<Rightarrow> string option" where
  "given x = (case x of None \<Rightarrow> None | Some s \<Rightarrow> if s = [] then None else Some s)"

text \<open>
  How the process ends: \<open>sys.exit(n)\<close>, or an exception nobody catches (the interpreter
  prints a traceback to the error stream and the exit status is 1).
\<close>

datatype outcome = Exit int | Uncaught pyerr

fun exit_status :: "outcome \<Rightarrow> int" where
  "exit_status (Exit n) = n"
| "exit_status (Uncaught e) = 1"

text \<open>Lines 208 to 218: the year and the four fields read from the digits.\<close>

definition t_fields :: "datetime \<Rightarrow> string \<Rightarrow> pyerr + (int \<times> int \<times> int \<times> int \<times> int)" where
  "t_fields now t_str =
     (if length t_str = 8 then
        bind_err (py_int (slice t_str 0 2)) (\<lambda>mm.
        bind_err (py_int (slice t_str 2 4)) (\<lambda>dd.
        bind_err (py_int (slice t_str 4 6)) (\<lambda>hh.
        bind_err (py_int (slice t_str 6 8)) (\<lambda>mi.
        Inr (dt_year now, mm, dd, hh, mi)))))
      else if length t_str = 10 then
        bind_err (py_int (slice (py_str (dt_year now)) 0 2 @ slice t_str 0 2)) (\<lambda>yy.
        bind_err (py_int (slice t_str 2 4)) (\<lambda>mm.
        bind_err (py_int (slice t_str 4 6)) (\<lambda>dd.
        bind_err (py_int (slice t_str 6 8)) (\<lambda>hh.
        bind_err (py_int (slice t_str 8 10)) (\<lambda>mi.
        Inr (yy, mm, dd, hh, mi))))))
      else if length t_str = 12 then
        bind_err (py_int (slice t_str 0 4)) (\<lambda>yy.
        bind_err (py_int (slice t_str 4 6)) (\<lambda>mm.
        bind_err (py_int (slice t_str 6 8)) (\<lambda>dd.
        bind_err (py_int (slice t_str 8 10)) (\<lambda>hh.
        bind_err (py_int (slice t_str 10 12)) (\<lambda>mi.
        Inr (yy, mm, dd, hh, mi))))))
      else Inl (ValueError ''Invalid format length''))"

text \<open>
  Lines 201 to 220, given the reading \<open>now\<close> of the clock: \<open>ss\<close> is the text after the dot,
  or \<open>None\<close> when the seconds are taken from \<open>now\<close>. Unpacking \<open>t_str.split('.')\<close> into two
  names raises \<open>ValueError\<close> unless there is exactly one dot.
\<close>

definition parse_t :: "datetime \<Rightarrow> string \<Rightarrow> pyerr + datetime" where
  "parse_t now t_arg =
     bind_err
       (if CHR ''.'' \<in> set t_arg then
          (case split_on (CHR ''.'') t_arg of
             [t_str, ss] \<Rightarrow> Inr (t_str, Some ss)
           | _ \<Rightarrow> Inl (ValueError ''too many values to unpack (expected 2)''))
        else Inr (t_arg, None))
       (\<lambda>(t_str, ss).
          bind_err (t_fields now t_str) (\<lambda>(yy, mm, dd, hh, mi).
          bind_err (case ss of Some s \<Rightarrow> py_int s | None \<Rightarrow> Inr (dt_second now)) (\<lambda>sec.
          datetime_new yy mm dd hh mi sec)))"

text \<open>The two \<open>except\<close> clauses: line 194 and line 223.\<close>

fun caught_date :: "pyerr \<Rightarrow> bool" where
  "caught_date (ValueError s) = True"
| "caught_date (OverflowError s) = True"
| "caught_date e = False"

fun caught_t :: "pyerr \<Rightarrow> bool" where
  "caught_t (ValueError s) = True"
| "caught_t (IndexError s) = True"
| "caught_t e = False"

text \<open>
  Lines 179 to 225: the pair \<open>(atime_change, mtime_change)\<close>, or the way the process ends
  when the source does not resolve.
\<close>

definition resolve_source ::
  "env \<Rightarrow> args \<Rightarrow> world \<Rightarrow> (outcome + real option \<times> real option) \<times> world" where
  "resolve_source E A w =
     (case given (arg_reference A) of
        Some ref \<Rightarrow>
          (case files w ref of
             None \<Rightarrow>
               (Inl (Exit 1),
                print_err (''touchp: failed to get attributes of '' @ quote ref
                             @ '': No such file or directory'') w)
           | Some ref_stat \<Rightarrow> (Inr (Some (st_atime ref_stat), Some (st_mtime ref_stat)), w))
      | None \<Rightarrow>
          (case given (arg_date A) of
             Some d \<Rightarrow>
               (case parse_date E d of
                  Inr ts \<Rightarrow> (Inr (Some ts, Some ts), w)
                | Inl e \<Rightarrow>
                    if caught_date e then
                      (Inl (Exit 1), print_err (''touchp: invalid date format '' @ quote d) w)
                    else (Inl (Uncaught e), w))
           | None \<Rightarrow>
               (case given (arg_t A) of
                  Some t \<Rightarrow>
                    (let now = now_dt E (tick w);
                         w1 = w\<lparr>tick := Suc (tick w)\<rparr>
                     in case bind_err (parse_t now t) (timestamp E) of
                          Inr ts \<Rightarrow> (Inr (Some ts, Some ts), w1)
                        | Inl e \<Rightarrow>
                            if caught_t e then
                              (Inl (Exit 1),
                               print_err (''touchp: invalid date format '' @ quote t
                                            @ '' ('' @ str_e e @ '')'') w1)
                            else (Inl (Uncaught e), w1))
                | None \<Rightarrow> (Inr (None, None), w))))"

text \<open>\<open>x or datetime.datetime.now().timestamp()\<close>: the clock is read only when \<open>x\<close> is
  \<open>None\<close> or zero.\<close>

definition or_now :: "env \<Rightarrow> real option \<Rightarrow> world \<Rightarrow> real \<times> world" where
  "or_now E x w =
     (case x of
        Some v \<Rightarrow> if v \<noteq> 0 then (v, w) else read_clock E w
      | None \<Rightarrow> read_clock E w)"

text \<open>Lines 228 to 235: the pair \<open>(atime_final, mtime_final)\<close>.\<close>

definition select_times ::
  "env \<Rightarrow> args \<Rightarrow> real option \<Rightarrow> real option \<Rightarrow> world \<Rightarrow> (real option \<times> real option) \<times> world" where
  "select_times E A atime_change mtime_change w =
     (if arg_a A \<and> \<not> arg_m A then
        (let (x, w1) = or_now E atime_change w in ((Some x, None), w1))
      else if arg_m A \<and> \<not> arg_a A then
        (let (y, w1) = or_now E mtime_change w in ((None, Some y), w1))
      else
        (let (x, w1) = or_now E atime_change w;
             (y, w2) = or_now E mtime_change w1
         in ((Some x, Some y), w2)))"

text \<open>Lines 238 to 241: the loop over \<open>args.file\<close>, with \<open>successful_files\<close> as accumulator.\<close>

fun touch_files ::
  "env \<Rightarrow> path list \<Rightarrow> real option \<Rightarrow> real option \<Rightarrow> bool \<Rightarrow> path list \<Rightarrow> world
     \<Rightarrow> path list \<times> world" where
  "touch_files E [] mtime atime no_create successful_files w = (successful_files, w)"
| "touch_files E (f # fs) mtime atime no_create successful_files w =
     (case update_timestamps E f mtime atime no_create w of
        (True, w1) \<Rightarrow> touch_files E fs mtime atime no_create (successful_files @ [f]) w1
      | (False, w1) \<Rightarrow> touch_files E fs mtime atime no_create successful_files w1)"

text \<open>Lines 179 to 241: everything before the test of \<open>successful_files\<close>.\<close>

definition touch_phase :: "env \<Rightarrow> args \<Rightarrow> world \<Rightarrow> (outcome + path list) \<times> world" where
  "touch_phase E A w =
     (case resolve_source E A w of
        (Inl out, w1) \<Rightarrow> (Inl out, w1)
      | (Inr (atime_change, mtime_change), w1) \<Rightarrow>
          (let ((atime_final, mtime_final), w2) = select_times E A atime_change mtime_change w1;
               (successful_files, w3) =
                  touch_files E (arg_file A) mtime_final atime_final (arg_no_create A) [] w2
           in (Inr successful_files, w3)))"

text \<open>
  The whole of \<open>main\<close>. The world it returns is the one handed to the dialog; what the
  dialog writes afterwards is outside the model.
\<close>

definition main :: "env \<Rightarrow> args \<Rightarrow> world \<Rightarrow> outcome \<times> world" where
  "main E A w =
     (case touch_phase E A w of
        (Inl out, w1) \<Rightarrow> (out, w1)
      | (Inr successful_files, w1) \<Rightarrow>
          if successful_files = [] then
            (Exit 1, print_out ''touchp: No files were created or updated. Exiting.'' w1)
          else (Exit (app_exec E successful_files), w1))"

section \<open>Notions the statements use\<close>

text \<open>
  Whether \<open>update_timestamps\<close> can succeed on a path: a missing path must be creatable
  (and \<open>-c\<close> not given), and \<open>os.utime\<close> must not fail on it.
\<close>

definition touchable :: "env \<Rightarrow> bool \<Rightarrow> world \<Rightarrow> path \<Rightarrow> bool" where
  "touchable E no_create w p =
     (case files w p of
        None \<Rightarrow> \<not> no_create \<and> open_err E p = None \<and> utime_err E p = None
      | Some stat \<Rightarrow> utime_err E p = None)"

text \<open>
  The metadata \<open>os.stat\<close> returns at line 62: that of the file found, or that of the file
  just created.
\<close>

definition stat_at_apply :: "env \<Rightarrow> path \<Rightarrow> world \<Rightarrow> file_meta" where
  "stat_at_apply E p w =
     (case files w p of
        Some stat \<Rightarrow> stat
      | None \<Rightarrow> \<lparr>st_atime = now_ts E (tick w), st_mtime = now_ts E (tick w), content = []\<rparr>)"

text \<open>
  The fallback chain in the words of the specification: the explicit value, then the
  sibling's value, then the value the file has, then the current time.
\<close>

definition spec_fallback :: "real option \<Rightarrow> real option \<Rightarrow> real option \<Rightarrow> real \<Rightarrow> real" where
  "spec_fallback explicit sibling existing now =
     (case explicit of
        Some v \<Rightarrow> v
      | None \<Rightarrow>
          (case sibling of
             Some v \<Rightarrow> v
           | None \<Rightarrow> (case existing of Some v \<Rightarrow> v | None \<Rightarrow> now)))"

text \<open>A path carries the access time \<open>ta\<close> and the modification time \<open>tm\<close>.\<close>

definition stamped :: "world \<Rightarrow> path \<Rightarrow> real \<Rightarrow> real \<Rightarrow> bool" where
  "stamped w p ta tm =
     (case files w p of None \<Rightarrow> False | Some s \<Rightarrow> st_atime s = ta \<and> st_mtime s = tm)"

text \<open>
  The compact specification \<open>[[CC]YY]MMDDhhmm\<close> read literally, in the words of the
  specification: \<open>dec\<close> is the number a string of decimal digits writes, and the fields
  are the numbers of the digit groups; with eight digits the year is the current year, with
  ten it is the century of the current year followed by the two digits given, with twelve
  it is the four digits given.
\<close>

definition dec :: "string \<Rightarrow> nat" where
  "dec s = foldl (\<lambda>n c. 10 * n + digit_val c) 0 s"

definition spec_t_fields :: "int \<Rightarrow> string \<Rightarrow> int \<times> int \<times> int \<times> int \<times> int" where
  "spec_t_fields current_year ds =
     (if length ds = 8 then
        (current_year,
         int (dec (slice ds 0 2)), int (dec (slice ds 2 4)),
         int (dec (slice ds 4 6)), int (dec (slice ds 6 8)))
      else if length ds = 10 then
        (100 * (current_year div 100) + int (dec (slice ds 0 2)),
         int (dec (slice ds 2 4)), int (dec (slice ds 4 6)),
         int (dec (slice ds 6 8)), int (dec (slice ds 8 10)))
      else
        (int (dec (slice ds 0 4)),
         int (dec (slice ds 4 6)), int (dec (slice ds 6 8)),
         int (dec (slice ds 8 10)), int (dec (slice ds 10 12))))"

subsection \<open>A concrete host\<close>

text \<open>
  A host whose local time is UTC, for instances of the theorems: the clock stands at
  2024-05-17 10:30:42 and each reading is a millisecond after the one before;
  \<open>os.utime\<close> fails on the path \<open>locked\<close>, and nothing can be created under
  \<open>nodir\<close>.
\<close>

definition utc_seconds :: "datetime \<Rightarrow> int" where
  "utc_seconds d =
     (let y = dt_year d - (if dt_month d \<le> 2 then 1 else 0);
          era = y div 400;
          yoe = y - era * 400;
          doy = (153 * (dt_month d + (if 2 < dt_month d then - 3 else 9)) + 2) div 5
                  + dt_day d - 1;
          doe = yoe * 365 + yoe div 4 - yoe div 100 + doy;
          days = era * 146097 + doe - 719468
      in days * 86400 + dt_hour d * 3600 + dt_minute d * 60 + dt_second d)"

definition demo_env :: env where
  "demo_env =
     \<lparr>now_dt = (\<lambda>k. \<lparr>dt_year = 2024, dt_month = 5, dt_day = 17, dt_hour = 10,
                       dt_minute = 30, dt_second = 42\<rparr>),
      now_ts = (\<lambda>k. 1715941842 + real k / 1000),
      open_err = (\<lambda>p. if p = ''nodir/x'' then Some ''[Errno 2] No such file or directory''
                        else None),
      utime_err = (\<lambda>p. if p = ''locked'' then Some ''[Errno 1] Operation not permitted''
                         else None),
      parse_date = (\<lambda>s. if s = ''2020-01-01'' then Inr 1577836800
                          else Inl (ValueError ''Unknown string format'')),
      timestamp = (\<lambda>d. Inr (real_of_int (utc_seconds d))),
      app_exec = (\<lambda>fs. 0)\<rparr>"

definition demo_world :: world where
  "demo_world =
     \<lparr>files = [''f'' \<mapsto> \<lparr>st_atime = 5, st_mtime = 7, content = ''x''\<rparr>,
               ''ref'' \<mapsto> \<lparr>st_atime = 100, st_mtime = 200, content = ''r''\<rparr>,
               ''old'' \<mapsto> \<lparr>st_atime = 0, st_mtime = 86400, content = []\<rparr>],
      tick = 0, stdout = [], stderr = []\<rparr>"

definition demo_args :: args where
  "demo_args =
     \<lparr>arg_file = [''f''], arg_a = False, arg_m = False, arg_no_create = False,
      arg_date = None, arg_reference = None, arg_t = None\<rparr>"

section \<open>The file toucher\<close>

lemma update_timestamps_fst:
  "fst (update_timestamps E p mt ta nc w) = touchable E nc w p"
  by (simp add: update_timestamps_def touchable_def set_times_def create_file_def read_clock_def
      print_out_def Let_def split: option.splits)

lemma files_os_utime:
  "files (os_utime E p tms stat w) q =
     (if q = p then
        Some (case tms of
                None \<Rightarrow> stat\<lparr>st_atime := now_ts E (tick w), st_mtime := now_ts E (tick w)\<rparr>
              | Some (xa, xm) \<Rightarrow> stat\<lparr>st_atime := xa, st_mtime := xm\<rparr>)
      else files w q)"
  by (simp add: os_utime_def read_clock_def split: option.splits prod.splits)

lemma files_set_times_other:
  "q \<noteq> p \<Longrightarrow> files (snd (set_times E p mt ta stat w)) q = files w q"
  by (simp add: set_times_def files_os_utime print_err_def split: option.splits)

lemma files_set_times_dom:
  "files w p \<noteq> None \<Longrightarrow> files (snd (set_times E p mt ta stat w)) p \<noteq> None"
  by (simp add: set_times_def files_os_utime print_err_def split: option.splits)

lemma files_update_other:
  "q \<noteq> p \<Longrightarrow> files (snd (update_timestamps E p mt ta nc w)) q = files w q"
  by (simp add: update_timestamps_def files_set_times_other create_file_def read_clock_def
      print_out_def print_err_def Let_def split: option.splits)

lemma files_update_same:
  "(files (snd (update_timestamps E p mt ta nc w)) p = None)
     = (files w p = None \<and> (nc \<or> open_err E p \<noteq> None))"
  by (auto simp add: update_timestamps_def files_set_times_dom create_file_def read_clock_def
      print_out_def print_err_def Let_def split: option.splits)

text \<open>Touching one path never changes whether another call can succeed on any path.\<close>

lemma touchable_update:
  "touchable E nc (snd (update_timestamps E f mt ta nc w)) p = touchable E nc w p"
proof (cases "p = f")
  case False
  then show ?thesis by (simp add: touchable_def files_update_other)
next
  case True
  show ?thesis
  proof (cases "files (snd (update_timestamps E f mt ta nc w)) f")
    case None
    then have "files w f = None \<and> (nc \<or> open_err E f \<noteq> None)"
      by (simp only: files_update_same)
    then show ?thesis using True None by (auto simp add: touchable_def)
  next
    case (Some s)
    then have "files (snd (update_timestamps E f mt ta nc w)) f \<noteq> None" by simp
    then have "files w f \<noteq> None \<or> (\<not> nc \<and> open_err E f = None)"
      by (simp add: files_update_same)
    then show ?thesis using True Some by (auto simp add: touchable_def split: option.splits)
  qed
qed

text \<open>The loop collects exactly the paths that can be touched, in their order.\<close>

lemma touch_files_fst:
  "fst (touch_files E fs mt ta nc acc w) = acc @ filter (touchable E nc w) fs"
proof (induction fs arbitrary: acc w)
  case Nil
  then show ?case by simp
next
  case (Cons f fs)
  obtain b w1 where u: "update_timestamps E f mt ta nc w = (b, w1)"
    by (cases "update_timestamps E f mt ta nc w")
  have b: "b = touchable E nc w f" using update_timestamps_fst [of E f mt ta nc w] u by simp
  have t: "touchable E nc w1 = touchable E nc w"
    using touchable_update [of E nc f mt ta w] u by (simp add: fun_eq_iff)
  show ?case using u b t Cons.IH by (cases b) simp_all
qed

subsection \<open>A file created and then not stamped\<close>

lemma update_created_then_failed:
  assumes "files w p = None" and "open_err E p = None" and "utime_err E p = Some e"
  shows "update_timestamps E p mt ta False w =
           (False, print_err (''touchp: setting times for '' @ quote p @ '': '' @ e)
                     (print_out (''touchp: created '' @ quote p) (create_file E p w)))"
  using assms
  by (simp add: update_timestamps_def set_times_def create_file_def read_clock_def print_out_def
      print_err_def Let_def)

lemma files_created:
  "files (print_err s1 (print_out s2 (create_file E p w))) p
     = Some \<lparr>st_atime = now_ts E (tick w), st_mtime = now_ts E (tick w), content = []\<rparr>"
  by (simp add: create_file_def read_clock_def print_out_def print_err_def)

lemma update_keeps_failed_file:
  assumes "utime_err E p = Some e" and "files w p = Some s"
  shows "files (snd (update_timestamps E f mt ta nc w)) p = Some s"
proof (cases "f = p")
  case True
  then show ?thesis using assms
    by (simp add: update_timestamps_def set_times_def print_err_def)
next
  case False
  then show ?thesis using assms by (simp add: files_update_other)
qed

lemma touch_files_keeps_failed_file:
  assumes "utime_err E p = Some e" and "files w p = Some s"
  shows "files (snd (touch_files E fs mt ta nc acc w)) p = Some s"
  using assms(2)
proof (induction fs arbitrary: acc w)
  case Nil
  then show ?case by simp
next
  case (Cons f fs)
  obtain b w1 where u: "update_timestamps E f mt ta nc w = (b, w1)"
    by (cases "update_timestamps E f mt ta nc w")
  have "files w1 p = Some s"
    using update_keeps_failed_file [OF assms(1) Cons.prems, of f mt ta nc] u by simp
  then show ?case using u Cons.IH by (cases b) simp_all
qed

lemma touch_files_leaves_created_file:
  assumes "utime_err E p = Some e" and "open_err E p = None"
    and "files w p = None" and "p \<in> set fs"
  shows "\<exists>s. files (snd (touch_files E fs mt ta False acc w)) p = Some s \<and> content s = []"
  using assms(3,4)
proof (induction fs arbitrary: acc w)
  case Nil
  then show ?case by simp
next
  case (Cons f fs)
  obtain b w1 where u: "update_timestamps E f mt ta False w = (b, w1)"
    by (cases "update_timestamps E f mt ta False w")
  show ?case
  proof (cases "f = p")
    case True
    have "w1 = print_err (''touchp: setting times for '' @ quote p @ '': '' @ e)
                 (print_out (''touchp: created '' @ quote p) (create_file E p w))"
      using update_created_then_failed [OF Cons.prems(1) assms(2) assms(1), of mt ta] u True
      by simp
    then have "files w1 p
        = Some \<lparr>st_atime = now_ts E (tick w), st_mtime = now_ts E (tick w), content = []\<rparr>"
      by (simp add: files_created)
    then show ?thesis
      using touch_files_keeps_failed_file [OF assms(1), of w1 _ fs mt ta False] u
      by (cases b) simp_all
  next
    case False
    then have "files w1 p = None" "p \<in> set fs"
      using Cons.prems files_update_other [of p f E mt ta False w] u by auto
    then show ?thesis using Cons.IH u by (cases b) simp_all
  qed
qed

text \<open>
  Claim C10. Touching a missing path is not atomic: when \<open>open\<close> creates the file and
  \<open>os.utime\<close> then fails, \<open>update_timestamps\<close> returns \<open>False\<close> and reports the failure on
  the error stream, and the empty file it created stays. In a batch that holds the path,
  the path is not among \<open>successful_files\<close> and an empty file is there at the end.
\<close>

theorem C10_created_file_remains:
  assumes "files w p = None" and "open_err E p = None" and "utime_err E p = Some e"
  shows "fst (update_timestamps E p mtime atime False w) = False
       \<and> files (snd (update_timestamps E p mtime atime False w)) p
           = Some \<lparr>st_atime = now_ts E (tick w), st_mtime = now_ts E (tick w), content = []\<rparr>
       \<and> stderr (snd (update_timestamps E p mtime atime False w))
           = stderr w @ [''touchp: setting times for '' @ quote p @ '': '' @ e]
       \<and> (p \<in> set fs \<longrightarrow>
            p \<notin> set (fst (touch_files E fs mtime atime False [] w))
          \<and> (\<exists>s. files (snd (touch_files E fs mtime atime False [] w)) p = Some s
                 \<and> content s = []))"
proof -
  have nt: "\<not> touchable E False w p" using assms by (simp add: touchable_def)
  have a: "p \<notin> set (fst (touch_files E fs mtime atime False [] w))"
    using nt by (simp add: touch_files_fst)
  have b: "stderr (print_err s1 (print_out s2 (create_file E p w))) = stderr w @ [s1]" for s1 s2
    by (simp add: create_file_def read_clock_def print_out_def print_err_def)
  show ?thesis
    using update_created_then_failed [OF assms, of mtime atime] a
      touch_files_leaves_created_file [OF assms(3) assms(2) assms(1), of fs mtime atime "[]"]
    by (simp add: files_created b)
qed

theorem C10_created_file_remains_witness:
  "files demo_world ''locked'' = None
   \<and> open_err demo_env ''locked'' = None
   \<and> utime_err demo_env ''locked'' = Some ''[Errno 1] Operation not permitted''
   \<and> fst (update_timestamps demo_env ''locked'' (Some 9) (Some 8) False demo_world) = False
   \<and> files (snd (update_timestamps demo_env ''locked'' (Some 9) (Some 8) False demo_world))
        ''locked''
       = Some \<lparr>st_atime = 1715941842, st_mtime = 1715941842, content = []\<rparr>
   \<and> ''locked'' \<in> set [''f'', ''locked'']
   \<and> ''locked'' \<notin> set (fst (touch_files demo_env [''f'', ''locked''] (Some 9) (Some 8) False []
                                 demo_world))
   \<and> (\<exists>s. files (snd (touch_files demo_env [''f'', ''locked''] (Some 9) (Some 8) False []
                          demo_world)) ''locked'' = Some s \<and> content s = [])"
proof -
  have h1: "files demo_world ''locked'' = None" by (simp add: demo_world_def)
  have h2: "open_err demo_env ''locked'' = None" by (simp add: demo_env_def)
  have h3: "utime_err demo_env ''locked'' = Some ''[Errno 1] Operation not permitted''"
    by (simp add: demo_env_def)
  have n: "now_ts demo_env (tick demo_world) = 1715941842"
    by (simp add: demo_env_def demo_world_def)
  show ?thesis
    using C10_created_file_remains [OF h1 h2 h3, of "Some 9" "Some 8" "[''f'', ''locked'']"]
      h1 h2 h3 n
    by simp
qed

lemmas run_defs =
  main_def touch_phase_def resolve_source_def given_def select_times_def or_now_def
  read_clock_def update_timestamps_def set_times_def final_times_def os_utime_def
  create_file_def print_out_def print_err_def demo_env_def demo_world_def demo_args_def

subsection \<open>The times the loop writes\<close>

lemma set_times_stamps:
  assumes "final_times mt ta stat = Some (xa, xm)" and "utime_err E p = None"
  shows "stamped (snd (set_times E p mt ta stat w)) p xa xm"
  using assms by (simp add: set_times_def stamped_def files_os_utime)

lemma update_stamps:
  assumes "\<And>s. final_times mt ta s = Some (xa, xm)"
    and "fst (update_timestamps E p mt ta nc w)"
  shows "stamped (snd (update_timestamps E p mt ta nc w)) p xa xm"
proof -
  have u: "utime_err E p = None"
    using assms(2) by (simp add: update_timestamps_fst touchable_def split: option.splits)
  show ?thesis
    using assms(2) set_times_stamps [OF assms(1) u]
    by (simp add: update_timestamps_def Let_def split: option.splits if_splits)
qed

lemma update_keeps_stamp:
  assumes "\<And>s. final_times mt ta s = Some (xa, xm)" and "stamped w p xa xm"
  shows "stamped (snd (update_timestamps E f mt ta nc w)) p xa xm"
proof (cases "f = p")
  case False
  then show ?thesis using assms(2) by (simp add: stamped_def files_update_other)
next
  case True
  obtain s where s: "files w p = Some s" "st_atime s = xa" "st_mtime s = xm"
    using assms(2) by (auto simp add: stamped_def split: option.splits)
  show ?thesis using True s assms(1) [of s]
    by (simp add: update_timestamps_def set_times_def stamped_def files_os_utime print_err_def
        split: option.splits)
qed

lemma touch_files_stamps:
  assumes "\<And>s. final_times mt ta s = Some (xa, xm)"
    and "\<forall>p\<in>set acc. stamped w p xa xm"
  shows "\<forall>p\<in>set (fst (touch_files E fs mt ta nc acc w)).
           stamped (snd (touch_files E fs mt ta nc acc w)) p xa xm"
  using assms(2)
proof (induction fs arbitrary: acc w)
  case Nil
  then show ?case by simp
next
  case (Cons f fs)
  obtain b w1 where u: "update_timestamps E f mt ta nc w = (b, w1)"
    by (cases "update_timestamps E f mt ta nc w")
  have keep: "\<forall>p\<in>set acc. stamped w1 p xa xm"
    using Cons.prems update_keeps_stamp [OF assms(1), of w _ E f nc] u by auto
  show ?case
  proof (cases b)
    case True
    have "stamped w1 f xa xm" using update_stamps [OF assms(1), of E f nc w] u True by simp
    then have "\<forall>p\<in>set (acc @ [f]). stamped w1 p xa xm" using keep by simp
    then show ?thesis using Cons.IH [of "acc @ [f]" w1] u True by simp
  next
    case False
    then show ?thesis using Cons.IH [of acc w1] keep u by simp
  qed
qed

text \<open>
  Claim C3. When one of the two slots is set and the other is not, and the path can be
  touched, \<open>update_timestamps\<close> writes for each slot the first value the chain of the
  specification finds: the slot's own value, then the value of the other slot, then the value
  \<open>os.stat\<close> returned, then the current time \<open>now\<close>. The sibling of a slot is the
  other argument of the call. Since one slot is set, the chain always ends at the first
  or the second link.
\<close>

theorem C3_fallback_chain:
  assumes "(atime = None) \<noteq> (mtime = None)" and "touchable E no_create w p"
  shows "fst (update_timestamps E p mtime atime no_create w) = True
       \<and> files (snd (update_timestamps E p mtime atime no_create w)) p
           = Some ((stat_at_apply E p w)
                \<lparr>st_atime := spec_fallback atime mtime (Some (st_atime (stat_at_apply E p w))) now,
                 st_mtime := spec_fallback mtime atime (Some (st_mtime (stat_at_apply E p w))) now\<rparr>)"
proof -
  have ok: "fst (update_timestamps E p mtime atime no_create w)"
    using assms(2) by (simp add: update_timestamps_fst)
  have u: "utime_err E p = None"
    using assms(2) by (simp add: touchable_def split: option.splits)
  show ?thesis
  proof (cases "files w p")
    case None
    then have c: "\<not> no_create" "open_err E p = None"
      using assms(2) by (simp_all add: touchable_def)
    show ?thesis using assms(1) None c u ok
      by (cases atime; cases mtime)
         (simp_all add: update_timestamps_def set_times_def final_times_def files_os_utime
           stat_at_apply_def spec_fallback_def create_file_def read_clock_def print_out_def Let_def)
  next
    case (Some s)
    show ?thesis using assms(1) Some u ok
      by (cases atime; cases mtime)
         (simp_all add: update_timestamps_def set_times_def final_times_def files_os_utime
           stat_at_apply_def spec_fallback_def)
  qed
qed

theorem C3_fallback_chain_witness:
  "((Some 9 :: real option) = None) \<noteq> ((None :: real option) = None)
   \<and> touchable demo_env False demo_world ''f''
   \<and> fst (update_timestamps demo_env ''f'' None (Some 9) False demo_world) = True
   \<and> files (snd (update_timestamps demo_env ''f'' None (Some 9) False demo_world)) ''f''
       = Some \<lparr>st_atime = 9, st_mtime = 9, content = ''x''\<rparr>"
proof -
  have h1: "((Some 9 :: real option) = None) \<noteq> ((None :: real option) = None)" by simp
  have h2: "touchable demo_env False demo_world ''f''"
    by (simp add: touchable_def demo_env_def demo_world_def)
  show ?thesis
    using C3_fallback_chain [OF h1 h2, of 0] h1 h2
    by (simp add: stat_at_apply_def spec_fallback_def demo_world_def)
qed

section \<open>The phases of main\<close>

lemma touchable_files_cong: "files w1 = files w \<Longrightarrow> touchable E nc w1 p = touchable E nc w p"
  by (simp add: touchable_def)

lemma resolve_source_files: "files (snd (resolve_source E A w)) = files w"
  by (simp add: resolve_source_def print_err_def Let_def split: option.splits sum.splits)

lemma select_times_files: "files (snd (select_times E A ac mc w)) = files w"
  by (simp add: select_times_def or_now_def read_clock_def split: option.splits prod.splits)


lemma touch_phase_resolved:
  assumes "resolve_source E A w = (Inr (ac, mc), w1)"
    and "select_times E A ac mc w1 = ((af, mf), w2)"
  shows "touch_phase E A w = (Inr (fst (touch_files E (arg_file A) mf af (arg_no_create A) [] w2)),
                              snd (touch_files E (arg_file A) mf af (arg_no_create A) [] w2))"
  using assms by (simp add: touch_phase_def split: prod.splits)

lemma final_times_fixed:
  assumes "\<not> (mf = None \<and> af = None)"
  shows "\<exists>xa xm. \<forall>s. final_times mf af s = Some (xa, xm)"
  using assms by (cases mf; cases af) (simp_all add: final_times_def)

text \<open>
  Claim C9. A base timestamp that is exactly 0 is falsy in \<open>x or now()\<close>: for each slot
  the flags select, \<open>select_times\<close> puts a reading of the clock in place of the epoch, and
  it prints nothing and changes no file while doing so.
\<close>

theorem C9_epoch_replaced_by_now:
  "(atime_change = Some 0 \<and> \<not> (arg_m A \<and> \<not> arg_a A) \<longrightarrow>
      fst (fst (select_times E A atime_change mtime_change w)) = Some (now_ts E (tick w)))
 \<and> (mtime_change = Some 0 \<and> \<not> (arg_a A \<and> \<not> arg_m A) \<longrightarrow>
      snd (fst (select_times E A atime_change mtime_change w))
        = Some (now_ts E (if arg_m A \<and> \<not> arg_a A then tick w
                           else tick (snd (or_now E atime_change w)))))
 \<and> stdout (snd (select_times E A atime_change mtime_change w)) = stdout w
 \<and> stderr (snd (select_times E A atime_change mtime_change w)) = stderr w
 \<and> files (snd (select_times E A atime_change mtime_change w)) = files w"
  by (cases atime_change; cases mtime_change)
     (auto simp add: select_times_def or_now_def read_clock_def split: prod.splits)

theorem C9_epoch_replaced_by_now_witness:
  "\<not> (arg_m demo_args \<and> \<not> arg_a demo_args) \<and> \<not> (arg_a demo_args \<and> \<not> arg_m demo_args)
   \<and> fst (fst (select_times demo_env demo_args (Some 0) (Some 0) demo_world)) = Some 1715941842
   \<and> snd (fst (select_times demo_env demo_args (Some 0) (Some 0) demo_world))
       = Some (1715941842 + 1 / 1000)
   \<and> stderr (snd (select_times demo_env demo_args (Some 0) (Some 0) demo_world)) = []"
  using C9_epoch_replaced_by_now [of "Some 0" demo_args demo_env "Some 0" demo_world]
  by (simp add: or_now_def read_clock_def demo_env_def demo_world_def demo_args_def)




subsection \<open>Missing paths under -c\<close>

lemma update_no_create_missing:
  assumes "files w p = None"
  shows "update_timestamps E p mt ta True w =
           (False, print_out (''touchp: cannot touch '' @ quote p
                      @ '': No such file or directory (and -c flag is set)'') w)"
  using assms by (simp add: update_timestamps_def)

lemma update_no_create_keeps_missing:
  assumes "files w p = None"
  shows "files (snd (update_timestamps E f mt ta True w)) p = None"
proof (cases "f = p")
  case True
  then show ?thesis using assms by (simp add: files_update_same)
next
  case False
  then show ?thesis using assms by (simp add: files_update_other)
qed

lemma stdout_set_times: "stdout (snd (set_times E p mt ta stat w)) = stdout w"
  by (simp add: set_times_def os_utime_def read_clock_def print_err_def
      split: option.splits prod.splits)

lemma update_stdout_grows:
  "m \<in> set (stdout w) \<Longrightarrow> m \<in> set (stdout (snd (update_timestamps E f mt ta nc w)))"
  by (simp add: update_timestamps_def stdout_set_times create_file_def read_clock_def
      print_out_def print_err_def Let_def split: option.splits)

lemma touch_files_stdout_grows:
  "m \<in> set (stdout w) \<Longrightarrow> m \<in> set (stdout (snd (touch_files E fs mt ta nc acc w)))"
proof (induction fs arbitrary: acc w)
  case Nil
  then show ?case by simp
next
  case (Cons f fs)
  obtain b w1 where u: "update_timestamps E f mt ta nc w = (b, w1)"
    by (cases "update_timestamps E f mt ta nc w")
  have "m \<in> set (stdout w1)" using update_stdout_grows [OF Cons.prems, of E f mt ta nc] u by simp
  then show ?case using Cons.IH u by (cases b) simp_all
qed

lemma touch_files_no_create_missing:
  assumes "files w p = None"
  shows "files (snd (touch_files E fs mt ta True acc w)) p = None
       \<and> (p \<in> set fs \<longrightarrow>
            (''touchp: cannot touch '' @ quote p
               @ '': No such file or directory (and -c flag is set)'')
              \<in> set (stdout (snd (touch_files E fs mt ta True acc w))))"
  using assms
proof (induction fs arbitrary: acc w)
  case Nil
  then show ?case by simp
next
  case (Cons f fs)
  let ?m = "''touchp: cannot touch '' @ quote p
               @ '': No such file or directory (and -c flag is set)''"
  obtain b w1 where u: "update_timestamps E f mt ta True w = (b, w1)"
    by (cases "update_timestamps E f mt ta True w")
  have k: "files w1 p = None"
    using update_no_create_keeps_missing [OF Cons.prems, of E f mt ta] u by simp
  have here: "f = p \<longrightarrow> ?m \<in> set (stdout w1)"
    using update_no_create_missing [OF Cons.prems, of E mt ta] u by (auto simp add: print_out_def)
  have later: "?m \<in> set (stdout w1) \<longrightarrow>
      ?m \<in> set (stdout (snd (touch_files E fs mt ta True acc' w1)))" for acc'
    using touch_files_stdout_grows [of ?m w1 E fs mt ta True acc'] by simp
  show ?case using Cons.IH [OF k] u here later by (cases b) auto
qed

text \<open>
  Claim C7. With \<open>-c\<close>, a path of the batch that does not exist is not created, the
  line naming it is printed, it is not among \<open>successful_files\<close> while the other paths
  are processed as usual, and when it is the only path the process exits with code 1.
\<close>

theorem C7_no_create_skips:
  assumes "arg_no_create A" and "files w p = None" and "p \<in> set (arg_file A)"
    and "resolve_source E A w = (Inr (ac, mc), w1)"
  shows "files (snd (main E A w)) p = None
       \<and> (''touchp: cannot touch '' @ quote p
             @ '': No such file or directory (and -c flag is set)'')
            \<in> set (stdout (snd (main E A w)))
       \<and> fst (touch_phase E A w) = Inr (filter (touchable E True w) (arg_file A))
       \<and> p \<notin> set (filter (touchable E True w) (arg_file A))
       \<and> (arg_file A = [p] \<longrightarrow> fst (main E A w) = Exit 1)"
proof -
  let ?S = "filter (touchable E True w) (arg_file A)"
  obtain af mf w2 where sel: "select_times E A ac mc w1 = ((af, mf), w2)"
    by (cases "select_times E A ac mc w1") auto
  let ?r = "touch_files E (arg_file A) mf af True [] w2"
  have tp: "touch_phase E A w = (Inr (fst ?r), snd ?r)"
    using touch_phase_resolved [OF assms(4) sel] assms(1) by simp
  have f1: "files w1 = files w" using resolve_source_files [of E A w] assms(4) by simp
  have f2: "files w2 = files w1" using select_times_files [of E A ac mc w1] sel by simp
  have "touchable E True w2 = touchable E True w"
    using f1 f2 by (simp add: fun_eq_iff touchable_files_cong)
  then have S: "fst ?r = ?S" by (simp add: touch_files_fst)
  have miss: "files w2 p = None" using f1 f2 assms(2) by simp
  have loop: "files (snd ?r) p = None
       \<and> (''touchp: cannot touch '' @ quote p
             @ '': No such file or directory (and -c flag is set)'') \<in> set (stdout (snd ?r))"
    using touch_files_no_create_missing [OF miss, of E "arg_file A" mf af "[]"] assms(3) by simp
  have nt: "p \<notin> set ?S" using assms(2) by (simp add: touchable_def)
  have one: "arg_file A = [p] \<longrightarrow> ?S = []" using assms(2) by (simp add: touchable_def)
  show ?thesis using tp S loop nt one
    by (auto simp add: main_def print_out_def)
qed

theorem C7_no_create_skips_witness:
  "arg_no_create (demo_args\<lparr>arg_no_create := True, arg_file := [''missing'']\<rparr>)
   \<and> files demo_world ''missing'' = None
   \<and> ''missing'' \<in> set (arg_file (demo_args\<lparr>arg_no_create := True, arg_file := [''missing'']\<rparr>))
   \<and> resolve_source demo_env (demo_args\<lparr>arg_no_create := True, arg_file := [''missing'']\<rparr>)
        demo_world = (Inr (None, None), demo_world)
   \<and> files (snd (main demo_env (demo_args\<lparr>arg_no_create := True, arg_file := [''missing'']\<rparr>)
                   demo_world)) ''missing'' = None
   \<and> (''touchp: cannot touch '' @ quote ''missing''
         @ '': No such file or directory (and -c flag is set)'')
        \<in> set (stdout (snd (main demo_env
                  (demo_args\<lparr>arg_no_create := True, arg_file := [''missing'']\<rparr>) demo_world)))
   \<and> fst (main demo_env (demo_args\<lparr>arg_no_create := True, arg_file := [''missing'']\<rparr>)
            demo_world) = Exit 1"
proof -
  let ?A = "demo_args\<lparr>arg_no_create := True, arg_file := [''missing'']\<rparr>"
  have h1: "arg_no_create ?A" by simp
  have h2: "files demo_world ''missing'' = None" by (simp add: demo_world_def)
  have h3: "''missing'' \<in> set (arg_file ?A)" by simp
  have h4: "resolve_source demo_env ?A demo_world = (Inr (None, None), demo_world)"
    by (simp add: resolve_source_def given_def demo_args_def)
  show ?thesis
    using C7_no_create_skips [OF h1 h2 h3 h4] h2 h4 by simp
qed

subsection \<open>No time source\<close>

text \<open>
  Claim C8, as stated, fails: with no time source and neither \<open>-a\<close> nor \<open>-m\<close>, the
  script reads the clock once for the access time and once more for the modification
  time, so the two times written differ when the clock has moved between the readings.
\<close>

theorem C8_atime_differs_from_mtime:
  "arg_reference demo_args = None \<and> arg_date demo_args = None \<and> arg_t demo_args = None
   \<and> files (snd (main demo_env demo_args demo_world)) ''f''
       = Some \<lparr>st_atime = 1715941842, st_mtime = 1715941842 + 1 / 1000, content = ''x''\<rparr>
   \<and> (1715941842 :: real) \<noteq> 1715941842 + 1 / 1000"
  by (simp add: run_defs)

text \<open>
  Claim C8, amended. With no time source the clock is read before the loop, once when
  exactly one of \<open>-a\<close> and \<open>-m\<close> is given and twice otherwise, and never again for
  a file: every path touched successfully carries the same pair, the first reading as
  access time and, as modification time, the first reading again when exactly one flag is
  given and the second reading otherwise.
\<close>

theorem C8_same_pair_for_all_files:
  assumes "arg_reference A = None" and "arg_date A = None" and "arg_t A = None"
  shows "\<exists>successful_files w'.
           touch_phase E A w = (Inr successful_files, w')
         \<and> (\<forall>p\<in>set successful_files.
               stamped w' p (now_ts E (tick w))
                 (now_ts E (if arg_a A = arg_m A then Suc (tick w) else tick w)))"
proof -
  let ?xa = "now_ts E (tick w)"
  let ?xm = "now_ts E (if arg_a A = arg_m A then Suc (tick w) else tick w)"
  have rs: "resolve_source E A w = (Inr (None, None), w)"
    using assms by (simp add: resolve_source_def given_def)
  obtain af mf w2 where sel: "select_times E A None None w = ((af, mf), w2)"
    by (cases "select_times E A None None w") auto
  have fx: "final_times mf af s = Some (?xa, ?xm)" for s
    using sel
    by (auto simp add: select_times_def or_now_def read_clock_def final_times_def
        split: if_splits)
  let ?r = "touch_files E (arg_file A) mf af (arg_no_create A) [] w2"
  have tp: "touch_phase E A w = (Inr (fst ?r), snd ?r)"
    by (rule touch_phase_resolved [OF rs sel])
  have "\<forall>p\<in>set (fst ?r). stamped (snd ?r) p ?xa ?xm"
    by (rule touch_files_stamps [OF fx]) simp
  then show ?thesis using tp by blast
qed

theorem C8_same_pair_for_all_files_witness:
  "arg_reference (demo_args\<lparr>arg_file := [''f'', ''new'']\<rparr>) = None
   \<and> arg_date (demo_args\<lparr>arg_file := [''f'', ''new'']\<rparr>) = None
   \<and> arg_t (demo_args\<lparr>arg_file := [''f'', ''new'']\<rparr>) = None
   \<and> fst (touch_phase demo_env (demo_args\<lparr>arg_file := [''f'', ''new'']\<rparr>) demo_world)
       = Inr [''f'', ''new'']
   \<and> stamped (snd (touch_phase demo_env (demo_args\<lparr>arg_file := [''f'', ''new'']\<rparr>) demo_world))
        ''f'' 1715941842 (1715941842 + 1 / 1000)
   \<and> stamped (snd (touch_phase demo_env (demo_args\<lparr>arg_file := [''f'', ''new'']\<rparr>) demo_world))
        ''new'' 1715941842 (1715941842 + 1 / 1000)"
proof -
  let ?A = "demo_args\<lparr>arg_file := [''f'', ''new'']\<rparr>"
  have h: "arg_reference ?A = None" "arg_date ?A = None" "arg_t ?A = None"
    by (simp_all add: demo_args_def)
  have fl: "arg_a ?A = arg_m ?A" by (simp add: demo_args_def)
  have n: "now_ts demo_env (tick demo_world) = 1715941842"
    "now_ts demo_env (Suc (tick demo_world)) = 1715941842 + 1 / 1000"
    by (simp_all add: demo_env_def demo_world_def)
  obtain S w' where tp: "touch_phase demo_env ?A demo_world = (Inr S, w')"
    and st: "\<forall>p\<in>set S. stamped w' p 1715941842 (1715941842 + 1 / 1000)"
    using C8_same_pair_for_all_files [OF h, of demo_env demo_world] fl n by auto
  have "fst (touch_phase demo_env ?A demo_world) = Inr [''f'', ''new'']"
    by (simp add: run_defs)
  then have S: "S = [''f'', ''new'']" using tp by simp
  show ?thesis using h tp st S by simp
qed

section \<open>The compact time specification\<close>

lemma is_digit_not_other:
  assumes "is_digit c"
  shows "\<not> is_space c" and "c \<noteq> CHR ''-''" and "c \<noteq> CHR ''+''" and "c \<noteq> CHR ''_''"
    and "c \<noteq> CHR ''.''"
  using assms by (auto simp add: is_digit_def is_space_def)

lemma int_digits_all:
  "list_all is_digit cs \<Longrightarrow>
     int_digits acc cs = Some (foldl (\<lambda>n c. 10 * n + digit_val c) acc cs)"
  by (induction cs arbitrary: acc) simp_all

lemma strip_digits:
  assumes "list_all is_digit s"
  shows "strip s = s"
proof (cases "s = []")
  case True
  then show ?thesis by (simp add: strip_def)
next
  case False
  have "is_digit (last s)" using assms False by (simp add: list_all_iff)
  then have a: "dropWhile is_space (rev s) = rev s"
    using False by (simp add: dropWhile_eq_self_iff hd_rev is_digit_not_other)
  have "is_digit (hd s)" using assms False by (simp add: list_all_iff)
  then have b: "dropWhile is_space s = s"
    using False by (simp add: dropWhile_eq_self_iff is_digit_not_other)
  show ?thesis by (simp add: strip_def a b)
qed

lemma py_int_digits:
  assumes "list_all is_digit s" and "s \<noteq> []"
  shows "py_int s = Inr (int (dec s))"
proof -
  obtain c cs where s: "s = c # cs" using assms(2) by (cases s) auto
  have c: "is_digit c" and cs: "list_all is_digit cs" using assms(1) s by simp_all
  have st: "strip (c # cs) = c # cs" using strip_digits [OF assms(1)] s by simp
  show ?thesis
    using c is_digit_not_other [OF c] int_digits_all [OF cs, of "digit_val c"]
    by (simp add: py_int_def st s dec_def Let_def)
qed

lemma list_all_slice: "list_all is_digit s \<Longrightarrow> list_all is_digit (slice s i j)"
  by (auto simp add: slice_def list_all_iff dest: in_set_takeD in_set_dropD)

lemma slice_nonempty: "i < j \<Longrightarrow> j \<le> length s \<Longrightarrow> slice s i j \<noteq> []"
  by (simp add: slice_def)

lemma py_int_slice:
  assumes "list_all is_digit s" and "i < j" and "j \<le> length s"
  shows "py_int (slice s i j) = Inr (int (dec (slice s i j)))"
  by (rule py_int_digits [OF list_all_slice [OF assms(1)] slice_nonempty [OF assms(2,3)]])

lemma digit_char_table:
  "digit_char 0 = CHR ''0''" "digit_char 1 = CHR ''1''" "digit_char 2 = CHR ''2''"
  "digit_char 3 = CHR ''3''" "digit_char 4 = CHR ''4''" "digit_char 5 = CHR ''5''"
  "digit_char 6 = CHR ''6''" "digit_char 7 = CHR ''7''" "digit_char 8 = CHR ''8''"
  "digit_char 9 = CHR ''9''" "digit_char (Suc 0) = CHR ''1''"
  by (simp_all add: digit_char_def char_of_def bit_numeral_simps bit_0 bit_Suc)

lemma digit_char_props:
  assumes "d < 10"
  shows "is_digit (digit_char d)" and "digit_val (digit_char d) = d"
proof -
  have "d \<in> {0, 1, 2, 3, 4, 5, 6, 7, 8, 9}" using assms by auto
  then have "is_digit (digit_char d) \<and> digit_val (digit_char d) = d"
    by (elim insertE emptyE) (simp_all add: digit_char_table is_digit_def digit_val_def)
  then show "is_digit (digit_char d)" and "digit_val (digit_char d) = d" by simp_all
qed

lemma str_nat_small: "n < 10 \<Longrightarrow> str_nat n = [digit_char n]"
  by (simp add: str_nat.simps [of n])

lemma str_nat_step: "10 \<le> n \<Longrightarrow> str_nat n = str_nat (n div 10) @ [digit_char (n mod 10)]"
  by (simp add: str_nat.simps [of n])

lemma str_nat_four:
  assumes "1000 \<le> n" and "n \<le> 9999"
  shows "str_nat n = [digit_char (n div 1000), digit_char (n div 100 mod 10),
                      digit_char (n div 10 mod 10), digit_char (n mod 10)]"
proof -
  have d1: "n div 10 div 10 = n div 100"
    by (simp add: div_mult2_eq [symmetric])
  have d2: "n div 100 div 10 = n div 1000"
    by (simp add: div_mult2_eq [symmetric])
  have g1: "10 \<le> n" using assms by simp
  have g2: "10 \<le> n div 10" using assms by simp
  have g3: "10 \<le> n div 100" using assms by simp
  have g4: "n div 1000 < 10" using assms by simp
  have a: "str_nat n = str_nat (n div 10) @ [digit_char (n mod 10)]"
    by (rule str_nat_step [OF g1])
  have b: "str_nat (n div 10) = str_nat (n div 100) @ [digit_char (n div 10 mod 10)]"
    using str_nat_step [OF g2] by (simp only: d1)
  have c: "str_nat (n div 100) = str_nat (n div 1000) @ [digit_char (n div 100 mod 10)]"
    using str_nat_step [OF g3] by (simp only: d2)
  have d: "str_nat (n div 1000) = [digit_char (n div 1000)]"
    by (rule str_nat_small [OF g4])
  show ?thesis by (simp only: a b c d append.simps)
qed

lemma split_on_no_sep: "sep \<notin> set ys \<Longrightarrow> split_on sep ys = [ys]"
  by (induction ys) auto

lemma split_on_one_sep:
  "sep \<notin> set xs \<Longrightarrow> sep \<notin> set ys \<Longrightarrow> split_on sep (xs @ sep # ys) = [xs, ys]"
  by (induction xs) (auto simp add: split_on_no_sep)

lemma digits_no_dot: "list_all is_digit s \<Longrightarrow> CHR ''.'' \<notin> set s"
  using is_digit_not_other(5) by (auto simp add: list_all_iff)

lemma dec_append_two:
  assumes "length ys = 2"
  shows "dec (xs @ ys) = dec xs * 100 + dec ys"
proof -
  obtain a b where ys: "ys = [a, b]"
    using assms by (auto simp add: numeral_2_eq_2 length_Suc_conv)
  show ?thesis by (simp add: ys dec_def)
qed

lemma century_prefix:
  assumes "1000 \<le> y" and "y \<le> 9999"
  shows "list_all is_digit (slice (py_str y) 0 2)"
    and "length (slice (py_str y) 0 2) = 2"
    and "int (dec (slice (py_str y) 0 2)) = y div 100"
proof -
  let ?n = "nat y"
  have n: "1000 \<le> ?n" "?n \<le> 9999" using assms by simp_all
  have y: "y = int ?n" using assms by simp
  have s: "py_str y = str_nat ?n" using assms by (simp add: py_str_def)
  have p: "slice (py_str y) 0 2 = [digit_char (?n div 1000), digit_char (?n div 100 mod 10)]"
    by (simp only: s str_nat_four [OF n] slice_def) simp
  have lt: "?n div 1000 < 10" "?n div 100 mod 10 < 10" using n by simp_all
  show "list_all is_digit (slice (py_str y) 0 2)"
    by (simp add: p digit_char_props [OF lt(1)] digit_char_props [OF lt(2)])
  show "length (slice (py_str y) 0 2) = 2" by (simp only: p) simp
  have d2: "?n div 100 div 10 = ?n div 1000"
    by (simp add: div_mult2_eq [symmetric])
  have "dec (slice (py_str y) 0 2)
      = 10 * (10 * 0 + digit_val (digit_char (?n div 1000)))
          + digit_val (digit_char (?n div 100 mod 10))"
    by (simp only: p dec_def foldl.simps)
  also have "\<dots> = 10 * (?n div 1000) + ?n div 100 mod 10"
    by (simp only: digit_char_props [OF lt(1)] digit_char_props [OF lt(2)]) simp
  also have "\<dots> = ?n div 100"
    using div_mult_mod_eq [of "?n div 100" 10] d2 by linarith
  finally have "int (dec (slice (py_str y) 0 2)) = int (?n div 100)" by simp
  also have "\<dots> = int ?n div 100" by (simp add: zdiv_int)
  finally show "int (dec (slice (py_str y) 0 2)) = y div 100" using y by simp
qed

lemma t_fields_literal:
  assumes "list_all is_digit ds"
    and "length ds = 8 \<or> length ds = 10 \<or> length ds = 12"
    and "length ds = 10 \<longrightarrow> 1000 \<le> dt_year now \<and> dt_year now \<le> 9999"
  shows "t_fields now ds = Inr (spec_t_fields (dt_year now) ds)"
proof -
  have sl: "py_int (slice ds i j) = Inr (int (dec (slice ds i j)))"
    if "i < j" and "j \<le> length ds" for i j
    by (rule py_int_slice [OF assms(1) that])
  consider "length ds = 8" | "length ds = 10" | "length ds = 12" using assms(2) by blast
  then show ?thesis
  proof cases
    case 1
    then show ?thesis
      by (simp add: t_fields_def spec_t_fields_def bind_err_def sl)
  next
    case 2
    have yr: "1000 \<le> dt_year now" "dt_year now \<le> 9999" using assms(3) 2 by simp_all
    let ?p = "slice (py_str (dt_year now)) 0 2"
    have yy: "list_all is_digit (slice ds 0 2)" by (rule list_all_slice [OF assms(1)])
    have l2: "length (slice ds 0 2) = 2" using 2 by (simp add: slice_def)
    have "list_all is_digit (?p @ slice ds 0 2)"
      using century_prefix(1) [OF yr] yy by simp
    moreover have "?p @ slice ds 0 2 \<noteq> []" using l2 by auto
    ultimately have "py_int (?p @ slice ds 0 2) = Inr (int (dec (?p @ slice ds 0 2)))"
      by (rule py_int_digits)
    also have "int (dec (?p @ slice ds 0 2)) = int (dec ?p) * 100 + int (dec (slice ds 0 2))"
      by (simp add: dec_append_two [OF l2])
    also have "\<dots> = 100 * (dt_year now div 100) + int (dec (slice ds 0 2))"
      by (simp add: century_prefix(3) [OF yr])
    finally have y: "py_int (?p @ slice ds 0 2)
        = Inr (100 * (dt_year now div 100) + int (dec (slice ds 0 2)))" .
    show ?thesis using 2
      by (simp add: t_fields_def spec_t_fields_def bind_err_def sl y)
  next
    case 3
    then show ?thesis
      by (simp add: t_fields_def spec_t_fields_def bind_err_def sl)
  qed
qed

lemma parse_t_literal:
  assumes "list_all is_digit ds"
    and "length ds = 8 \<or> length ds = 10 \<or> length ds = 12"
    and "case ss of None \<Rightarrow> True | Some s \<Rightarrow> list_all is_digit s \<and> length s = 2"
    and "length ds = 10 \<longrightarrow> 1000 \<le> dt_year now \<and> dt_year now \<le> 9999"
    and "spec_t_fields (dt_year now) ds = (yy, mm, dd, hh, mi)"
  shows "parse_t now (ds @ (case ss of None \<Rightarrow> [] | Some s \<Rightarrow> CHR ''.'' # s))
           = datetime_new yy mm dd hh mi
               (case ss of None \<Rightarrow> dt_second now | Some s \<Rightarrow> int (dec s))"
proof -
  have f: "t_fields now ds = Inr (yy, mm, dd, hh, mi)"
    using t_fields_literal [OF assms(1,2,4)] assms(5) by simp
  have nd: "CHR ''.'' \<notin> set ds" by (rule digits_no_dot [OF assms(1)])
  show ?thesis
  proof (cases ss)
    case None
    then show ?thesis using nd by (simp add: parse_t_def bind_err_def f)
  next
    case (Some s)
    have sd: "list_all is_digit s" and sl: "length s = 2" using assms(3) Some by simp_all
    have ns: "CHR ''.'' \<notin> set s" by (rule digits_no_dot [OF sd])
    have "s \<noteq> []" using sl by auto
    then have pi: "py_int s = Inr (int (dec s))" by (rule py_int_digits [OF sd])
    have sp: "split_on (CHR ''.'') (ds @ CHR ''.'' # s) = [ds, s]"
      by (rule split_on_one_sep [OF nd ns])
    show ?thesis using Some by (simp add: parse_t_def bind_err_def f sp pi)
  qed
qed

text \<open>
  Claim C2. Let the argument of \<open>-t\<close> be 8, 10 or 12 decimal digits, followed or not by
  a dot and two digits, and let the fields it writes (with the year as the length says) be
  a date and time that \<open>datetime\<close> accepts and the host can convert. Then the script
  resolves both base timestamps to that date and time: the year is the current year (8
  digits), the century of the current four-digit year followed by \<open>YY\<close> (10 digits) or
  \<open>CCYY\<close> itself (12 digits), month, day, hour and minute are the digit groups, and the
  seconds are those given, or the second of the clock reading when none are given.
\<close>

theorem C2_t_spec_literal:
  assumes "list_all is_digit ds"
    and "length ds = 8 \<or> length ds = 10 \<or> length ds = 12"
    and "case ss of None \<Rightarrow> True | Some s \<Rightarrow> list_all is_digit s \<and> length s = 2"
    and "length ds = 10 \<longrightarrow>
           1000 \<le> dt_year (now_dt E (tick w)) \<and> dt_year (now_dt E (tick w)) \<le> 9999"
    and "spec_t_fields (dt_year (now_dt E (tick w))) ds = (yy, mm, dd, hh, mi)"
    and "sec = (case ss of None \<Rightarrow> dt_second (now_dt E (tick w)) | Some s \<Rightarrow> int (dec s))"
    and "datetime_new yy mm dd hh mi sec = Inr d"
    and "timestamp E d = Inr x"
    and "arg_reference A = None" and "arg_date A = None"
    and "arg_t A = Some (ds @ (case ss of None \<Rightarrow> [] | Some s \<Rightarrow> CHR ''.'' # s))"
  shows "d = \<lparr>dt_year = yy, dt_month = mm, dt_day = dd, dt_hour = hh, dt_minute = mi,
              dt_second = sec\<rparr>
       \<and> parse_t (now_dt E (tick w)) (ds @ (case ss of None \<Rightarrow> [] | Some s \<Rightarrow> CHR ''.'' # s))
           = Inr d
       \<and> fst (resolve_source E A w) = Inr (Some x, Some x)"
proof -
  let ?t = "ds @ (case ss of None \<Rightarrow> [] | Some s \<Rightarrow> CHR ''.'' # s)"
  have d: "d = \<lparr>dt_year = yy, dt_month = mm, dt_day = dd, dt_hour = hh, dt_minute = mi,
                  dt_second = sec\<rparr>"
    using assms(7) by (simp add: datetime_new_def split: if_splits)
  have p: "parse_t (now_dt E (tick w)) ?t = Inr d"
    using parse_t_literal [OF assms(1,2,3,4,5)] assms(6,7) by simp
  have ne: "?t \<noteq> []" using assms(2) by auto
  have g: "given (arg_t A) = Some ?t" using assms(11) ne by (simp add: given_def)
  have r: "fst (resolve_source E A w) = Inr (Some x, Some x)"
    using assms(9,10) g p assms(8)
    by (simp add: resolve_source_def given_def bind_err_def Let_def)
  show ?thesis using d p r by simp
qed

theorem C2_t_spec_literal_witness:
  "list_all is_digit ''2312251430''
   \<and> length ''2312251430'' = 10
   \<and> list_all is_digit ''07'' \<and> length ''07'' = 2
   \<and> dt_year (now_dt demo_env (tick demo_world)) = 2024
   \<and> spec_t_fields 2024 ''2312251430'' = (2023, 12, 25, 14, 30)
   \<and> int (dec ''07'') = 7
   \<and> datetime_new 2023 12 25 14 30 7
       = Inr \<lparr>dt_year = 2023, dt_month = 12, dt_day = 25, dt_hour = 14, dt_minute = 30,
               dt_second = 7\<rparr>
   \<and> timestamp demo_env \<lparr>dt_year = 2023, dt_month = 12, dt_day = 25, dt_hour = 14,
                            dt_minute = 30, dt_second = 7\<rparr> = Inr 1703514607
   \<and> parse_t (now_dt demo_env (tick demo_world)) ''2312251430.07''
       = Inr \<lparr>dt_year = 2023, dt_month = 12, dt_day = 25, dt_hour = 14, dt_minute = 30,
               dt_second = 7\<rparr>
   \<and> fst (resolve_source demo_env (demo_args\<lparr>arg_t := Some ''2312251430.07''\<rparr>) demo_world)
       = Inr (Some 1703514607, Some 1703514607)"
proof -
  let ?d = "\<lparr>dt_year = 2023, dt_month = 12, dt_day = 25, dt_hour = 14, dt_minute = 30,
              dt_second = 7\<rparr>"
  let ?A = "demo_args\<lparr>arg_t := Some ''2312251430.07''\<rparr>"
  have h1: "list_all is_digit ''2312251430''" by (simp add: is_digit_def)
  have h2: "length ''2312251430'' = 8 \<or> length ''2312251430'' = 10 \<or> length ''2312251430'' = 12"
    by simp
  have h3: "case Some ''07'' of None \<Rightarrow> True | Some s \<Rightarrow> list_all is_digit s \<and> length s = 2"
    by (simp add: is_digit_def)
  have y: "dt_year (now_dt demo_env (tick demo_world)) = 2024"
    by (simp add: demo_env_def demo_world_def)
  have h4: "length ''2312251430'' = 10 \<longrightarrow>
      1000 \<le> dt_year (now_dt demo_env (tick demo_world))
      \<and> dt_year (now_dt demo_env (tick demo_world)) \<le> 9999"
    by (simp add: y)
  have sp: "spec_t_fields 2024 ''2312251430'' = (2023, 12, 25, 14, 30)"
    by (simp add: spec_t_fields_def slice_def dec_def digit_val_def)
  have h6: "spec_t_fields (dt_year (now_dt demo_env (tick demo_world))) ''2312251430''
      = (2023, 12, 25, 14, 30)"
    by (simp only: y sp)
  have s7: "int (dec ''07'') = 7" by (simp add: dec_def digit_val_def)
  have h7: "7 = (case Some ''07'' of None \<Rightarrow> dt_second (now_dt demo_env (tick demo_world))
                 | Some s \<Rightarrow> int (dec s))"
    by (simp add: s7)
  have h8: "datetime_new 2023 12 25 14 30 7 = Inr ?d"
    by (simp add: datetime_new_def days_in_month_def)
  have h9: "timestamp demo_env ?d = Inr 1703514607"
    by (simp add: demo_env_def utc_seconds_def)
  have h10: "arg_reference ?A = None" and h11: "arg_date ?A = None"
    by (simp_all add: demo_args_def)
  have h12: "arg_t ?A = Some (''2312251430'' @ (case Some ''07'' of None \<Rightarrow> []
                                                | Some s \<Rightarrow> CHR ''.'' # s))"
    by simp
  show ?thesis
    using C2_t_spec_literal [OF h1 h2 h3 h4 h6 h7 h8 h9 h10 h11 h12] h1 h3 y sp s7 h8 h9
    by simp
qed

section \<open>Where the script departs from its documentation\<close>

text \<open>
  Claim C1 does not hold of the code. The help text of \<open>-a\<close> says "change only the
  access time", and \<open>update_timestamps\<close> reads the file's times "to fill in missing time",
  but line 68 takes the access time for a modification time that is not given, so the
  value read is never used. Here \<open>-a -d 2020-01-01\<close> on a file with modification time 7
  leaves it with modification time 1577836800.
\<close>

theorem C1_only_a_overwrites_mtime:
  "files demo_world ''f'' = Some \<lparr>st_atime = 5, st_mtime = 7, content = ''x''\<rparr>
   \<and> main demo_env (demo_args\<lparr>arg_a := True, arg_date := Some ''2020-01-01''\<rparr>) demo_world
       = (Exit 0,
          demo_world\<lparr>files := (files demo_world)
            (''f'' \<mapsto> \<lparr>st_atime = 1577836800, st_mtime = 1577836800, content = ''x''\<rparr>)\<rparr>)"
  by (simp add: run_defs)

text \<open>
  Claim C4 does not hold of the code for a reference file whose access or modification
  time is the epoch: \<open>x or now()\<close> at lines 234 and 235 takes the value 0 for a missing
  one. Here the reference has access time 0 and the target gets the reading of the clock.
\<close>

theorem C4_epoch_reference_not_copied:
  "files demo_world ''old'' = Some \<lparr>st_atime = 0, st_mtime = 86400, content = []\<rparr>
   \<and> files (snd (main demo_env (demo_args\<lparr>arg_reference := Some ''old''\<rparr>) demo_world)) ''f''
       = Some \<lparr>st_atime = 1715941842, st_mtime = 86400, content = ''x''\<rparr>"
  by (simp add: run_defs)

text \<open>
  Claim C5 does not hold of the code for an empty argument: \<open>elif args.t:\<close> is false
  for the empty string, so \<open>-t ""\<close> (of length 0, not 8, 10 or 12) is taken for no time
  source at all. Here the missing target is created and stamped, nothing is printed to the
  error stream and the exit code is that of the dialog.
\<close>

theorem C5_empty_t_spec_touches:
  "fst (main demo_env (demo_args\<lparr>arg_t := Some [], arg_file := [''new'']\<rparr>) demo_world) = Exit 0
   \<and> files demo_world ''new'' = None
   \<and> files (snd (main demo_env (demo_args\<lparr>arg_t := Some [], arg_file := [''new'']\<rparr>) demo_world))
        ''new''
       = Some \<lparr>st_atime = 1715941842, st_mtime = 1715941842 + 1 / 1000, content = []\<rparr>
   \<and> stderr (snd (main demo_env (demo_args\<lparr>arg_t := Some [], arg_file := [''new'']\<rparr>) demo_world))
       = []"
  by (simp add: run_defs)

end
